theory Spec2Isabelle
  imports
    Complex_Main
    "HOL-Library.Char_ord"
    "HOL-Library.List_Lexorder"
    "HOL-Library.Product_Lexorder"
begin

section \<open>Values\<close>

text \<open>
  Python floats are modelled as real numbers: finite values, arithmetic without rounding.
  Text is \<open>string\<close>. A calendar date is a record of its three fields; a pandas
  timestamp adds the second of the day.
\<close>

record date =
  year :: nat
  month :: nat
  day :: nat

record datetime =
  ts_date :: date
  ts_second :: nat

text \<open>Decimal text of a natural number, as \<^verbatim>\<open>str(n)\<close> writes it.\<close>

definition digit_char :: "nat \<Rightarrow> char" where
  "digit_char n = ''0123456789'' ! n"

function str_nat :: "nat \<Rightarrow> string" where
  "str_nat n = (if n < 10 then [digit_char n] else str_nat (n div 10) @ [digit_char (n mod 10)])"
  by pat_completeness auto
termination
  by (relation "measure id") auto

declare str_nat.simps [simp del]

definition zfill :: "nat \<Rightarrow> string \<Rightarrow> string" where
  "zfill k s = replicate (k - length s) (CHR ''0'') @ s"

text \<open>\<^verbatim>\<open>d.isoformat()\<close>: \<^verbatim>\<open>YYYY-MM-DD\<close>.\<close>

definition isoformat :: "date \<Rightarrow> string" where
  "isoformat d =
     zfill 4 (str_nat (year d)) @ ''-'' @ zfill 2 (str_nat (month d)) @ ''-'' @
     zfill 2 (str_nat (day d))"

text \<open>
  What \<^verbatim>\<open>safe_float\<close> and the provider code receive as \<^verbatim>\<open>Any\<close>: the
  values a decoded JSON document or a worksheet read is made of.
\<close>

datatype pyval =
    PyNone
  | PyBool bool
  | PyFloat real
  | PyStr string
  | PyList "pyval list"
  | PyDict "(string \<times> pyval) list"

text \<open>The exceptions the code raises itself are all \<^verbatim>\<open>RuntimeError\<close>; every
  exception of a library is \<open>LibraryError\<close>. Both carry the text of \<^verbatim>\<open>str(e)\<close>.\<close>

datatype exn = RuntimeError string | LibraryError string

fun str_exn :: "exn \<Rightarrow> string" where
  "str_exn (RuntimeError m) = m"
| "str_exn (LibraryError m) = m"

record response =
  status_code :: nat
  resp_text :: string
  resp_json :: "exn + pyval"

text \<open>A worksheet cell holds text or a number (\<^verbatim>\<open>append_row\<close> is given
  \<^verbatim>\<open>str\<close> and \<^verbatim>\<open>float\<close> values).\<close>

datatype cell = Str string | Num real

text \<open>
  A table is its number of rows and its columns in order, each a name and its cells;
  names may repeat, as pandas allows. A cell is text, a float, NaN, a timestamp or NaT.
\<close>

datatype dfcell = DStr string | DFloat real | DNaN | DTimestamp datetime | DNaT

record dataframe =
  index_len :: nat
  columns :: "(string \<times> dfcell list) list"

section \<open>The environment of a call\<close>

text \<open>
  Everything a call reads from outside the program: the clock (seconds), the current
  date, Python's \<^verbatim>\<open>float()\<close> on text (\<open>None\<close> where it raises), the text a
  numeric cell is read back as, Python's \<^verbatim>\<open>str()\<close> of a decoded document (used in
  error messages only), the answer of an HTTP GET, and the two values the entry page
  draws from the clock and the random source.
\<close>

record env =
  now :: nat
  today :: date
  float_of_str :: "string \<Rightarrow> real option"
  str_of_float :: "real \<Rightarrow> string"
  str_of_pyval :: "pyval \<Rightarrow> string"
  http_get :: "string \<Rightarrow> (string \<times> string) list \<Rightarrow> exn + response"
  make_tx_id :: string
  now_isoformat :: string

section \<open>utils.py: constants and helpers\<close>

definition TX_HEADERS :: "string list" where
  "TX_HEADERS = [''id'', ''date'', ''type'', ''category'', ''remarks'',
     ''amount_eur'', ''rate_eur_bdt'', ''amount_bdt'', ''created_at'']"

definition CAT_HEADERS :: "string list" where
  "CAT_HEADERS = [''category_name'', ''type'']"

definition RATE_HEADERS :: "string list" where
  "RATE_HEADERS = [''date'', ''eur_bdt_rate'']"

text \<open>\<^verbatim>\<open>float(x)\<close>: \<open>None\<close> where Python raises (TypeError or ValueError).\<close>

fun py_float :: "env \<Rightarrow> pyval \<Rightarrow> real option" where
  "py_float e (PyFloat r) = Some r"
| "py_float e (PyBool b) = Some (if b then 1 else 0)"
| "py_float e (PyStr s) = float_of_str e s"
| "py_float e PyNone = None"
| "py_float e (PyList xs) = None"
| "py_float e (PyDict kvs) = None"

definition safe_float :: "env \<Rightarrow> pyval \<Rightarrow> real \<Rightarrow> real" where
  "safe_float e x dflt = (case py_float e x of Some r \<Rightarrow> r | None \<Rightarrow> dflt)"

section \<open>The spreadsheet and the read caches\<close>

text \<open>
  A worksheet is the list of its rows. The state of the program is the three worksheets
  (by title), the three \<^verbatim>\<open>st.cache_data\<close> caches (each entry with the time it was
  stored) and the list of the HTTP requests made so far. The spreadsheet API is modelled
  as always answering; a worksheet object is identified by its title.
\<close>

type_synonym worksheet = "cell list list"

type_synonym 'v cache = "string \<rightharpoonup> ('v \<times> nat)"

record world =
  sheets :: "string \<Rightarrow> worksheet"
  header_cache :: "string list cache"
  df_cache :: "dataframe cache"
  rate_cache :: "real option cache"
  http_log :: "string list"

text \<open>An entry stored at \<open>t0\<close> with time-to-live \<open>ttl\<close> is served while
  \<open>now < t0 + ttl\<close>.\<close>

definition cache_lookup :: "nat \<Rightarrow> nat \<Rightarrow> 'v cache \<Rightarrow> string \<Rightarrow> 'v option" where
  "cache_lookup ttl t c k =
     (case c k of
        None \<Rightarrow> None
      | Some (v, t0) \<Rightarrow> if t < t0 + ttl then Some v else None)"

definition invalidate_all_data_caches :: "world \<Rightarrow> world" where
  "invalidate_all_data_caches w =
     w\<lparr>header_cache := Map.empty, df_cache := Map.empty, rate_cache := Map.empty\<rparr>"

subsection \<open>Worksheet operations (gspread)\<close>

definition cell_text :: "env \<Rightarrow> cell \<Rightarrow> string" where
  "cell_text e c = (case c of Str s \<Rightarrow> s | Num r \<Rightarrow> str_of_float e r)"

definition rstrip_empty :: "string list \<Rightarrow> string list" where
  "rstrip_empty xs = rev (dropWhile (\<lambda>s. s = []) (rev xs))"

text \<open>\<^verbatim>\<open>row_values(n)\<close>: the texts of row \<open>n\<close> (counted from 1) without trailing
  empty cells; the empty list when the row does not exist.\<close>

definition row_values :: "env \<Rightarrow> worksheet \<Rightarrow> nat \<Rightarrow> string list" where
  "row_values e rows n =
     (if 0 < n \<and> n \<le> length rows then rstrip_empty (map (cell_text e) (rows ! (n - 1)))
      else [])"

text \<open>\<^verbatim>\<open>find(query, in_column=c)\<close>: the number of the first row whose cell in
  column \<open>c\<close> reads as \<open>query\<close>.\<close>

definition column_text :: "env \<Rightarrow> cell list \<Rightarrow> nat \<Rightarrow> string" where
  "column_text e row c = (if 0 < c \<and> c \<le> length row then cell_text e (row ! (c - 1)) else [])"

fun find_from :: "env \<Rightarrow> nat \<Rightarrow> string \<Rightarrow> nat \<Rightarrow> worksheet \<Rightarrow> nat option" where
  "find_from e c query i [] = None"
| "find_from e c query i (row # rows) =
     (if column_text e row c = query then Some i else find_from e c query (Suc i) rows)"

definition find_cell :: "env \<Rightarrow> worksheet \<Rightarrow> string \<Rightarrow> nat \<Rightarrow> nat option" where
  "find_cell e rows query in_column = find_from e in_column query 1 rows"

text \<open>\<^verbatim>\<open>cell(r, c).value\<close>: the text of the cell, empty where there is none.\<close>

definition cell_value :: "env \<Rightarrow> worksheet \<Rightarrow> nat \<Rightarrow> nat \<Rightarrow> string" where
  "cell_value e rows r c =
     (if 0 < r \<and> r \<le> length rows then column_text e (rows ! (r - 1)) c else [])"

definition clear :: "string \<Rightarrow> world \<Rightarrow> world" where
  "clear title w = w\<lparr>sheets := (sheets w)(title := [])\<rparr>"

definition append_row :: "string \<Rightarrow> cell list \<Rightarrow> world \<Rightarrow> world" where
  "append_row title vals w = w\<lparr>sheets := (sheets w)(title := sheets w title @ [vals])\<rparr>"

subsection \<open>ensure_headers\<close>

text \<open>\<^verbatim>\<open>_read_header_row\<close>, cached for 120 seconds; the key is the worksheet title
  (the argument \<^verbatim>\<open>_sheet_id\<close> is not hashed).\<close>

definition read_header_row :: "env \<Rightarrow> string \<Rightarrow> world \<Rightarrow> string list \<times> world" where
  "read_header_row e ws_title w =
     (case cache_lookup 120 (now e) (header_cache w) ws_title of
        Some v \<Rightarrow> (v, w)
      | None \<Rightarrow>
          (let v = row_values e (sheets w ws_title) 1
           in (v, w\<lparr>header_cache := (header_cache w)(ws_title \<mapsto> (v, now e))\<rparr>)))"

text \<open>The \<^verbatim>\<open>except\<close> branch of \<^verbatim>\<open>ensure_headers\<close> reads the same row without the
  cache when the cached read raises; with a spreadsheet API that always answers it is
  never taken.\<close>

definition ensure_headers :: "env \<Rightarrow> string \<Rightarrow> string list \<Rightarrow> world \<Rightarrow> world" where
  "ensure_headers e worksheet headers w =
     (let (existing, w1) = read_header_row e worksheet w
      in if existing \<noteq> headers
         then invalidate_all_data_caches (append_row worksheet (map Str headers) (clear worksheet w1))
         else w1)"

text \<open>Every entry of the header cache is the first row of its worksheet. The caches are
  empty when the process starts, and every operation below keeps this.\<close>

definition header_cache_coherent :: "env \<Rightarrow> world \<Rightarrow> bool" where
  "header_cache_coherent e w =
     (\<forall>t v t0. header_cache w t = Some (v, t0) \<longrightarrow> v = row_values e (sheets w t) 1)"

subsection \<open>Cached reads of a worksheet\<close>

text \<open>\<^verbatim>\<open>get_all_values()\<close>: the texts of all rows, padded with empty strings to one
  length.\<close>

definition fill_gaps :: "string list list \<Rightarrow> string list list" where
  "fill_gaps rows =
     (let n = fold max (map length rows) 0
      in map (\<lambda>r. r @ replicate (n - length r) []) rows)"

definition get_all_values :: "env \<Rightarrow> worksheet \<Rightarrow> string list list" where
  "get_all_values e rows = fill_gaps (map (map (cell_text e)) rows)"

text \<open>\<^verbatim>\<open>pd.DataFrame(rows, columns=headers)\<close> and \<^verbatim>\<open>pd.DataFrame()\<close>.\<close>

definition DataFrame :: "string list list \<Rightarrow> string list \<Rightarrow> dataframe" where
  "DataFrame rows headers =
     \<lparr>index_len = length rows,
      columns = map (\<lambda>(j, h). (h, map (\<lambda>r. DStr (r ! j)) rows)) (enumerate 0 headers)\<rparr>"

definition DataFrame_empty :: dataframe where
  "DataFrame_empty = \<lparr>index_len = 0, columns = []\<rparr>"

text \<open>\<^verbatim>\<open>read_df_cached\<close>, cached for 15 seconds under the worksheet title;
  \<^verbatim>\<open>read_df\<close> routes to it.\<close>

definition read_df_cached :: "env \<Rightarrow> string \<Rightarrow> world \<Rightarrow> dataframe \<times> world" where
  "read_df_cached e worksheet_title w =
     (case cache_lookup 15 (now e) (df_cache w) worksheet_title of
        Some df \<Rightarrow> (df, w)
      | None \<Rightarrow>
         (let vals = get_all_values e (sheets w worksheet_title);
              df = (if vals = [] \<or> length vals < 2 then DataFrame_empty
                    else DataFrame (tl vals) (hd vals))
          in (df, w\<lparr>df_cache := (df_cache w)(worksheet_title \<mapsto> (df, now e))\<rparr>)))"

definition read_df :: "env \<Rightarrow> string \<Rightarrow> world \<Rightarrow> dataframe \<times> world" where
  "read_df e worksheet w = read_df_cached e worksheet w"

section \<open>utils.py: exchange-rate providers\<close>

definition newline :: string where
  "newline = [CHR 0x0A]"

text \<open>\<^verbatim>\<open>sep.join(xs)\<close>.\<close>

fun str_join :: "string \<Rightarrow> string list \<Rightarrow> string" where
  "str_join sep [] = []"
| "str_join sep [x] = x"
| "str_join sep (x # y # ys) = x @ sep @ str_join sep (y # ys)"

text \<open>A decoded JSON object keeps the last value of a repeated key.\<close>

definition dict_get :: "(string \<times> pyval) list \<Rightarrow> string \<Rightarrow> pyval option" where
  "dict_get kvs k = map_of (rev kvs) k"

fun type_name :: "pyval \<Rightarrow> string" where
  "type_name PyNone = ''NoneType''"
| "type_name (PyBool b) = ''bool''"
| "type_name (PyFloat r) = ''float''"
| "type_name (PyStr s) = ''str''"
| "type_name (PyList xs) = ''list''"
| "type_name (PyDict kvs) = ''dict''"

text \<open>\<^verbatim>\<open>data.get("rates")\<close>: the value or \<^verbatim>\<open>None\<close> on a dict, an
  AttributeError on anything else.\<close>

definition data_get :: "pyval \<Rightarrow> string \<Rightarrow> exn + pyval" where
  "data_get data k =
     (case data of
        PyDict kvs \<Rightarrow> Inr (case dict_get kvs k of Some v \<Rightarrow> v | None \<Rightarrow> PyNone)
      | _ \<Rightarrow> Inl (LibraryError
          ([CHR 0x27] @ type_name data @ [CHR 0x27] @ '' object has no attribute '' @
           [CHR 0x27] @ ''get'' @ [CHR 0x27])))"

text \<open>The part of both providers after the status check: decode, find
  \<^verbatim>\<open>rates["BDT"]\<close>, convert, refuse a rate that is not positive. \<open>name\<close> is the
  provider's name in the messages.\<close>

definition rate_of_response :: "env \<Rightarrow> string \<Rightarrow> response \<Rightarrow> exn + real" where
  "rate_of_response e name resp =
     (if status_code resp \<noteq> 200
      then Inl (RuntimeError (name @ '' HTTP '' @ str_nat (status_code resp) @ '': '' @ resp_text resp))
      else
        (case resp_json resp of
           Inl ex \<Rightarrow> Inl ex
         | Inr data \<Rightarrow>
            (case data_get data ''rates'' of
               Inl ex \<Rightarrow> Inl ex
             | Inr rates \<Rightarrow>
                (case (case rates of PyDict kvs \<Rightarrow> dict_get kvs ''BDT'' | _ \<Rightarrow> None) of
                   None \<Rightarrow> Inl (RuntimeError (name @ '' missing BDT: '' @ str_of_pyval e data))
                 | Some v \<Rightarrow>
                    (let rate = safe_float e v 0
                     in if rate \<le> 0
                        then Inl (RuntimeError (name @ '' invalid rate: '' @ str_of_pyval e data))
                        else Inr rate)))))"

definition frankfurter_url :: "date \<Rightarrow> string" where
  "frankfurter_url d = ''https://api.frankfurter.app/'' @ isoformat d"

definition erapi_url :: string where
  "erapi_url = ''https://open.er-api.com/v6/latest/EUR''"

definition erapi_only_today :: string where
  "erapi_only_today = ''open.er-api.com fallback supports only today'' @ [CHR 0x27] @ ''s rate''"

text \<open>Provider 1 (historical). Every request is recorded in \<open>http_log\<close>.\<close>

definition fetch_eur_to_bdt_rate_frankfurter :: "env \<Rightarrow> date \<Rightarrow> world \<Rightarrow> (exn + real) \<times> world" where
  "fetch_eur_to_bdt_rate_frankfurter e d w =
     (let url = frankfurter_url d;
          w1 = w\<lparr>http_log := http_log w @ [url]\<rparr>
      in case http_get e url [(''from'', ''EUR''), (''to'', ''BDT'')] of
           Inl ex \<Rightarrow> (Inl ex, w1)
         | Inr resp \<Rightarrow> (rate_of_response e ''Frankfurter'' resp, w1))"

text \<open>Provider 2 (today's rate only).\<close>

definition fetch_eur_to_bdt_rate_erapi :: "env \<Rightarrow> date \<Rightarrow> world \<Rightarrow> (exn + real) \<times> world" where
  "fetch_eur_to_bdt_rate_erapi e d w =
     (if d \<noteq> today e then (Inl (RuntimeError erapi_only_today), w)
      else
        (let w1 = w\<lparr>http_log := http_log w @ [erapi_url]\<rparr>
         in case http_get e erapi_url [] of
              Inl ex \<Rightarrow> (Inl ex, w1)
            | Inr resp \<Rightarrow> (rate_of_response e ''ER-API'' resp, w1)))"

definition fetch_eur_to_bdt_rate :: "env \<Rightarrow> date \<Rightarrow> world \<Rightarrow> (exn + real) \<times> world" where
  "fetch_eur_to_bdt_rate e d w =
     (case fetch_eur_to_bdt_rate_frankfurter e d w of
        (Inr r, w1) \<Rightarrow> (Inr r, w1)
      | (Inl ex1, w1) \<Rightarrow>
         (let errors = [''Frankfurter failed: '' @ str_exn ex1]
          in case fetch_eur_to_bdt_rate_erapi e d w1 of
               (Inr r, w2) \<Rightarrow> (Inr r, w2)
             | (Inl ex2, w2) \<Rightarrow>
                (let errors2 = errors @ [''ER-API failed: '' @ str_exn ex2]
                 in (Inl (RuntimeError
                       (''All FX providers failed.'' @ newline @ str_join newline errors2)),
                     w2))))"

section \<open>utils.py: the date-locked rate\<close>

text \<open>The body of \<^verbatim>\<open>_get_rate_from_sheet_cached\<close>: the first row of the Rates
  worksheet whose column A reads as \<open>d_str\<close>, and its column B when that is a positive
  number. (Its \<^verbatim>\<open>except\<close> branch answers \<^verbatim>\<open>None\<close> when the spreadsheet API
  raises.)\<close>

definition get_rate_from_sheet :: "env \<Rightarrow> worksheet \<Rightarrow> string \<Rightarrow> real option" where
  "get_rate_from_sheet e rates_ws d_str =
     (case find_cell e rates_ws d_str 1 of
        None \<Rightarrow> None
      | Some row \<Rightarrow>
         (let rate_val = cell_value e rates_ws row 2;
              rate = safe_float e (PyStr rate_val) 0
          in if rate > 0 then Some rate else None))"

text \<open>Cached for 300 seconds under the key \<open>d_str\<close>; an answer \<^verbatim>\<open>None\<close> is cached
  like any other.\<close>

definition get_rate_from_sheet_cached :: "env \<Rightarrow> string \<Rightarrow> world \<Rightarrow> real option \<times> world" where
  "get_rate_from_sheet_cached e d_str w =
     (case cache_lookup 300 (now e) (rate_cache w) d_str of
        Some v \<Rightarrow> (v, w)
      | None \<Rightarrow>
         (let v = get_rate_from_sheet e (sheets w ''Rates'') d_str
          in (v, w\<lparr>rate_cache := (rate_cache w)(d_str \<mapsto> (v, now e))\<rparr>)))"

definition get_rate_for_date :: "env \<Rightarrow> date \<Rightarrow> world \<Rightarrow> (exn + real) \<times> world" where
  "get_rate_for_date e d w =
     (let d_str = isoformat d;
          (existing, w1) = get_rate_from_sheet_cached e d_str w
      in case existing of
           Some r \<Rightarrow> (Inr r, w1)
         | None \<Rightarrow>
            (case fetch_eur_to_bdt_rate e d w1 of
               (Inl ex, w2) \<Rightarrow> (Inl ex, w2)
             | (Inr rate, w2) \<Rightarrow>
                (Inr rate,
                 invalidate_all_data_caches (append_row ''Rates'' [Str d_str, Num rate] w2))))"

text \<open>Every rate held by the rate cache is positive: the cache only ever stores answers
  of \<open>get_rate_from_sheet\<close>.\<close>

definition rate_cache_ok :: "world \<Rightarrow> bool" where
  "rate_cache_ok w = (\<forall>k r t0. rate_cache w k = Some (Some r, t0) \<longrightarrow> 0 < r)"

text \<open>Every entry of the rate cache is what the lookup in the Rates worksheet
  answers.\<close>

definition rate_cache_coherent :: "env \<Rightarrow> world \<Rightarrow> bool" where
  "rate_cache_coherent e w =
     (\<forall>k v t0. rate_cache w k = Some (v, t0) \<longrightarrow> v = get_rate_from_sheet e (sheets w ''Rates'') k)"

section \<open>pages/1_Entry.py: rate lookup, conversion and save\<close>

text \<open>The widgets of the entry form as the script reads them on one run. The amount
  widget has \<^verbatim>\<open>min_value=0.0\<close>; a disabled button is never clicked.\<close>

record entry_form =
  form_type :: string
  form_category :: string
  form_date :: date
  form_remarks :: string
  form_amount_eur :: real
  save_clicked :: bool

text \<open>The \<^verbatim>\<open>try\<close> block: the rate and \<^verbatim>\<open>amount_bdt = amount_eur * rate\<close>, or
  no rate and 0.0 when the resolution raises.\<close>

definition rate_lookup_and_conversion ::
  "env \<Rightarrow> entry_form \<Rightarrow> world \<Rightarrow> (real option \<times> real) \<times> world" where
  "rate_lookup_and_conversion e f w =
     (case get_rate_for_date e (form_date f) w of
        (Inr r, w1) \<Rightarrow> ((Some r, form_amount_eur f * r), w1)
      | (Inl ex, w1) \<Rightarrow> ((None, 0), w1))"

text \<open>The save button: the row given to \<^verbatim>\<open>append_row\<close> when an entry is saved,
  and the state after the run.\<close>

definition save_entry :: "env \<Rightarrow> entry_form \<Rightarrow> world \<Rightarrow> cell list option \<times> world" where
  "save_entry e f w =
     (let ((rate, amount_bdt), w1) = rate_lookup_and_conversion e f w;
          save_disabled = (rate = None \<or> form_amount_eur f \<le> 0)
      in if save_clicked f \<and> \<not> save_disabled
         then
           (case rate of
              None \<Rightarrow> (None, w1)
            | Some r \<Rightarrow>
               (let row = [Str (make_tx_id e), Str (isoformat (form_date f)), Str (form_type f),
                           Str (form_category f), Str (form_remarks f),
                           Num (form_amount_eur f), Num r, Num amount_bdt,
                           Str (now_isoformat e)]
                in (Some row, invalidate_all_data_caches (append_row ''Transactions'' row w1))))
         else (None, w1))"

section \<open>utils.py: normalize_transactions_df\<close>

text \<open>The conversions of pandas are taken as they are: whether and to what an element
  converts is the library's decision, \<open>None\<close> where it cannot convert.\<close>

record pandas =
  to_datetime :: "dfcell \<Rightarrow> datetime option"
  to_numeric :: "dfcell \<Rightarrow> real option"
  astype_str :: "dfcell \<Rightarrow> string"

text \<open>\<^verbatim>\<open>df.empty\<close>: no rows or no columns.\<close>

definition df_empty :: "dataframe \<Rightarrow> bool" where
  "df_empty df = (index_len df = 0 \<or> columns df = [])"

definition column_names :: "dataframe \<Rightarrow> string list" where
  "column_names df = map fst (columns df)"

definition required_cols :: "string list" where
  "required_cols = [''id'', ''date'', ''type'', ''category'', ''remarks'',
     ''amount_eur'', ''rate_eur_bdt'', ''amount_bdt'', ''created_at'']"

text \<open>\<^verbatim>\<open>if col not in tx_df.columns: tx_df[col] = ""\<close>.\<close>

definition ensure_column :: "string \<Rightarrow> dataframe \<Rightarrow> dataframe" where
  "ensure_column col df =
     (if col \<notin> set (column_names df)
      then df\<lparr>columns := columns df @ [(col, replicate (index_len df) (DStr []))]\<rparr>
      else df)"

text \<open>\<^verbatim>\<open>tx_df[col] = f(tx_df[col])\<close> for an elementwise \<open>f\<close>: every column of that
  name is converted.\<close>

definition convert_column :: "string \<Rightarrow> (dfcell \<Rightarrow> dfcell) \<Rightarrow> dataframe \<Rightarrow> dataframe" where
  "convert_column col f df =
     df\<lparr>columns := map (\<lambda>(n, xs). if n = col then (n, map f xs) else (n, xs)) (columns df)\<rparr>"

text \<open>With \<^verbatim>\<open>errors="coerce"\<close> an element that does not convert becomes NaT
  (dates) or NaN (numbers); \<^verbatim>\<open>fillna(v)\<close> replaces the missing values.\<close>

definition to_datetime_coerce :: "pandas \<Rightarrow> dfcell \<Rightarrow> dfcell" where
  "to_datetime_coerce p c = (case to_datetime p c of Some t \<Rightarrow> DTimestamp t | None \<Rightarrow> DNaT)"

definition to_numeric_coerce :: "pandas \<Rightarrow> dfcell \<Rightarrow> dfcell" where
  "to_numeric_coerce p c = (case to_numeric p c of Some r \<Rightarrow> DFloat r | None \<Rightarrow> DNaN)"

definition fillna :: "real \<Rightarrow> dfcell \<Rightarrow> dfcell" where
  "fillna v c = (case c of DNaN \<Rightarrow> DFloat v | DNaT \<Rightarrow> DFloat v | _ \<Rightarrow> c)"

text \<open>\<^verbatim>\<open>tx_df[col]\<close> is a Series when exactly one column has the name; with a
  repeated name it is a DataFrame, which \<^verbatim>\<open>pd.to_datetime\<close> refuses with a
  ValueError and \<^verbatim>\<open>pd.to_numeric\<close> with a TypeError.\<close>

definition is_series :: "dataframe \<Rightarrow> string \<Rightarrow> bool" where
  "is_series df col = (count_list (column_names df) col = 1)"

fun coerce_amounts :: "pandas \<Rightarrow> string list \<Rightarrow> dataframe \<Rightarrow> exn + dataframe" where
  "coerce_amounts p [] df = Inr df"
| "coerce_amounts p (col # cols) df =
     (if \<not> is_series df col
      then Inl (LibraryError ''arg must be a list, tuple, 1-d array, or Series'')
      else coerce_amounts p cols (convert_column col (fillna 0 \<circ> to_numeric_coerce p) df))"

definition normalize_transactions_df :: "pandas \<Rightarrow> dataframe \<Rightarrow> exn + dataframe" where
  "normalize_transactions_df p tx_df =
     (if df_empty tx_df then Inr tx_df
      else
        (let df1 = fold ensure_column required_cols tx_df
         in if \<not> is_series df1 ''date''
            then Inl (LibraryError ''cannot assemble with duplicate keys'')
            else
              (case coerce_amounts p [''amount_eur'', ''rate_eur_bdt'', ''amount_bdt'']
                      (convert_column ''date'' (to_datetime_coerce p) df1) of
                 Inl ex \<Rightarrow> Inl ex
               | Inr df3 \<Rightarrow>
                  Inr (fold (\<lambda>col. convert_column col (\<lambda>c. DStr (astype_str p c)))
                         [''id'', ''type'', ''category'', ''remarks'', ''created_at''] df3))))"

subsection \<open>Reading a table\<close>






section \<open>The report pages: aggregation\<close>

text \<open>
  The pages aggregate the normalized table; it is read here row by row, a record per
  transaction, with \<open>None\<close> for a date that is NaT.
\<close>

record tx =
  tx_id :: string
  tx_date :: "datetime option"
  tx_type :: string
  tx_category :: string
  tx_remarks :: string
  amount_eur :: real
  rate_eur_bdt :: real
  amount_bdt :: real
  created_at :: string

text \<open>\<^verbatim>\<open>to_month_str\<close>: \<^verbatim>\<open>x.strftime("%Y-%m")\<close>, and the empty string where that
  raises (NaT). \<open>tx_month\<close> is the column \<^verbatim>\<open>month\<close> that the pages add.\<close>

definition to_month_str :: "datetime option \<Rightarrow> string" where
  "to_month_str x =
     (case x of
        None \<Rightarrow> []
      | Some t \<Rightarrow> zfill 4 (str_nat (year (ts_date t))) @ ''-'' @ zfill 2 (str_nat (month (ts_date t))))"

definition tx_month :: "tx \<Rightarrow> string" where
  "tx_month t = to_month_str (tx_date t)"

text \<open>\<^verbatim>\<open>float(m.loc[m["type"] == ty, col].sum())\<close>.\<close>

definition loc_sum :: "tx list \<Rightarrow> string \<Rightarrow> (tx \<Rightarrow> real) \<Rightarrow> real" where
  "loc_sum m ty col = sum_list (map col (filter (\<lambda>t. tx_type t = ty) m))"

subsection \<open>pages/1_Entry.py: top status\<close>



subsection \<open>pages/2_Monthly_Report.py: summary of the selected month\<close>

text \<open>\<^verbatim>\<open>sort_values("date", ascending=False)\<close>: latest first, NaT last. (pandas
  leaves the order of equal dates open; the model fixes one.)\<close>

definition date_key :: "tx \<Rightarrow> nat \<times> nat \<times> nat \<times> nat" where
  "date_key t =
     (case tx_date t of
        None \<Rightarrow> (0, 0, 0, 0)
      | Some d \<Rightarrow> (year (ts_date d), month (ts_date d), day (ts_date d), ts_second d))"

definition sort_values_date_desc :: "tx list \<Rightarrow> tx list" where
  "sort_values_date_desc m =
     rev (sort_key date_key (filter (\<lambda>t. tx_date t \<noteq> None) m)) @
     filter (\<lambda>t. tx_date t = None) m"

definition month_frame :: "tx list \<Rightarrow> string \<Rightarrow> tx list" where
  "month_frame tx_df sel_month = sort_values_date_desc (filter (\<lambda>t. tx_month t = sel_month) tx_df)"

record monthly_summary =
  income_eur :: real
  expense_eur :: real
  debt_add_eur :: real
  debt_pay_eur :: real
  income_bdt :: real
  expense_bdt :: real
  debt_add_bdt :: real
  debt_pay_bdt :: real
  net_eur :: real
  net_bdt :: real
  debt_net_eur :: real
  debt_net_bdt :: real

definition summary :: "tx list \<Rightarrow> monthly_summary" where
  "summary m =
     (let ie = loc_sum m ''Income'' amount_eur;
          ee = loc_sum m ''Expense'' amount_eur;
          dae = loc_sum m ''Debt'' amount_eur;
          dpe = loc_sum m ''Debt Payment'' amount_eur;
          ib = loc_sum m ''Income'' amount_bdt;
          eb = loc_sum m ''Expense'' amount_bdt;
          dab = loc_sum m ''Debt'' amount_bdt;
          dpb = loc_sum m ''Debt Payment'' amount_bdt
      in \<lparr>income_eur = ie, expense_eur = ee, debt_add_eur = dae, debt_pay_eur = dpe,
          income_bdt = ib, expense_bdt = eb, debt_add_bdt = dab, debt_pay_bdt = dpb,
          net_eur = ie - ee, net_bdt = ib - eb,
          debt_net_eur = dae - dpe, debt_net_bdt = dab - dpb\<rparr>)"

definition monthly_report :: "tx list \<Rightarrow> string \<Rightarrow> monthly_summary" where
  "monthly_report tx_df sel_month = summary (month_frame tx_df sel_month)"

text \<open>The total the specification speaks of: the sum of a column over the transactions
  of a month and a type.\<close>

definition total_of :: "tx list \<Rightarrow> string \<Rightarrow> string \<Rightarrow> (tx \<Rightarrow> real) \<Rightarrow> real" where
  "total_of txs mon ty col =
     sum_list (map col (filter (\<lambda>t. tx_month t = mon \<and> tx_type t = ty) txs))"

subsection \<open>pages/3_Insights_and_Categories.py: monthly pivot\<close>








subsection \<open>pages/3_Insights_and_Categories.py: expense by category\<close>

text \<open>\<^verbatim>\<open>groupby(key)[value_col].sum()\<close> (groups in ascending order of the key) and
  \<^verbatim>\<open>sort_values(ascending=False)\<close>.\<close>

definition groupby_sum :: "(tx \<Rightarrow> string) \<Rightarrow> (tx \<Rightarrow> real) \<Rightarrow> tx list \<Rightarrow> (string \<times> real) list" where
  "groupby_sum key value_col xs =
     map (\<lambda>k. (k, sum_list (map value_col (filter (\<lambda>t. key t = k) xs))))
       (sort (remdups (map key xs)))"

definition sort_values_desc :: "(string \<times> real) list \<Rightarrow> (string \<times> real) list" where
  "sort_values_desc s = rev (sort_key snd s)"

definition expense_by_category :: "(tx \<Rightarrow> real) \<Rightarrow> tx list \<Rightarrow> string \<Rightarrow> (string \<times> real) list" where
  "expense_by_category value_col tx_df sel_month =
     (let m_exp = filter (\<lambda>t. tx_month t = sel_month \<and> tx_type t = ''Expense'') tx_df
      in sort_values_desc (groupby_sum tx_category value_col m_exp))"

text \<open>The total the specification speaks of: the sum of a column over the expenses of a
  month and a category.\<close>

definition category_total :: "tx list \<Rightarrow> string \<Rightarrow> string \<Rightarrow> (tx \<Rightarrow> real) \<Rightarrow> real" where
  "category_total txs mon cat col =
     sum_list (map col (filter (\<lambda>t. tx_month t = mon \<and> tx_type t = ''Expense'' \<and> tx_category t = cat) txs))"

section \<open>Concrete inputs\<close>

text \<open>A small environment and spreadsheet on which the definitions are evaluated: a
  \<^verbatim>\<open>float()\<close> and a number format that know the few numbers used, a primary and a
  secondary provider answer, and a state whose caches are empty.\<close>

definition demo_float_of_str :: "string \<Rightarrow> real option" where
  "demo_float_of_str =
     map_of [(''119.5'', 119.5), (''120.25'', 120.25), (''120'', 120), (''0'', 0)]"

definition demo_str_of_float :: "real \<Rightarrow> string" where
  "demo_str_of_float r =
     (if r = 119.5 then ''119.5'' else if r = 120.25 then ''120.25''
      else if r = 120 then ''120'' else ''0'')"

definition rates_response :: "real \<Rightarrow> exn + response" where
  "rates_response r =
     Inr \<lparr>status_code = 200, resp_text = [],
          resp_json = Inr (PyDict [(''base'', PyStr ''EUR''),
                                   (''rates'', PyDict [(''BDT'', PyFloat r)])])\<rparr>"

definition http_500 :: "exn + response" where
  "http_500 = Inr \<lparr>status_code = 500, resp_text = ''Internal Server Error'',
                   resp_json = Inl (LibraryError ''Expecting value'')\<rparr>"

definition demo_env :: "nat \<Rightarrow> date \<Rightarrow> (exn + response) \<Rightarrow> (exn + response) \<Rightarrow> env" where
  "demo_env t td primary secondary =
     \<lparr>now = t, today = td,
      float_of_str = demo_float_of_str, str_of_float = demo_str_of_float,
      str_of_pyval = (\<lambda>v. ''{...}''),
      http_get = (\<lambda>url params. if url = erapi_url then secondary else primary),
      make_tx_id = ''TX-20260207-120000-AB12'',
      now_isoformat = ''2026-02-07T12:00:00''\<rparr>"

definition demo_world :: "worksheet \<Rightarrow> worksheet \<Rightarrow> world" where
  "demo_world tx rates =
     \<lparr>sheets = (\<lambda>t. if t = ''Rates'' then rates else if t = ''Transactions'' then tx else []),
      header_cache = Map.empty, df_cache = Map.empty, rate_cache = Map.empty,
      http_log = []\<rparr>"

definition feb7 :: date where
  "feb7 = \<lparr>year = 2026, month = 2, day = 7\<rparr>"

definition feb9 :: date where
  "feb9 = \<lparr>year = 2026, month = 2, day = 9\<rparr>"

text \<open>A Rates worksheet whose row for 2026-02-07 has an empty rate cell, and two
  successive resolutions of that date on that day: the primary provider answers HTTP 500
  both times, the secondary 119.5 and, a minute later, 120.25.\<close>

definition blank_rate_sheet :: worksheet where
  "blank_rate_sheet = [[Str ''date'', Str ''eur_bdt_rate''], [Str ''2026-02-07'', Str []]]"

definition first_call :: "(exn + real) \<times> world" where
  "first_call = get_rate_for_date (demo_env 0 feb7 http_500 (rates_response 119.5)) feb7
     (demo_world [] blank_rate_sheet)"

definition second_call :: "(exn + real) \<times> world" where
  "second_call = get_rate_for_date (demo_env 60 feb7 http_500 (rates_response 120.25)) feb7
     (snd first_call)"

text \<open>A Rates worksheet that holds 120 for 2026-02-07, and an entry of 100 EUR on that
  date.\<close>

definition locked_rate_sheet :: worksheet where
  "locked_rate_sheet = [[Str ''date'', Str ''eur_bdt_rate''], [Str ''2026-02-07'', Num 120]]"

definition demo_form :: entry_form where
  "demo_form = \<lparr>form_type = ''Income'', form_category = ''Salary'', form_date = feb7,
     form_remarks = [], form_amount_eur = 100, save_clicked = True\<rparr>"

definition demo_row :: "cell list" where
  "demo_row = [Str ''TX-20260207-120000-AB12'', Str ''2026-02-07'', Str ''Income'', Str ''Salary'',
     Str [], Num 100, Num 120, Num 12000, Str ''2026-02-07T12:00:00'']"

text \<open>Conversions that know one date and the numbers above, and four raw tables: one
  with a bad date, a bad amount and six columns missing, one without columns, one
  without rows, one with two date columns.\<close>

definition demo_pandas :: pandas where
  "demo_pandas =
     \<lparr>to_datetime =
        (\<lambda>c. if c = DStr ''2026-02-07'' then Some \<lparr>ts_date = feb7, ts_second = 0\<rparr> else None),
      to_numeric = (\<lambda>c. case c of DStr s \<Rightarrow> demo_float_of_str s | DFloat r \<Rightarrow> Some r | _ \<Rightarrow> None),
      astype_str = (\<lambda>c. case c of DStr s \<Rightarrow> s | _ \<Rightarrow> ''nan'')\<rparr>"



definition no_rows_df :: dataframe where
  "no_rows_df = \<lparr>index_len = 0, columns = [(''id'', []), (''note'', [])]\<rparr>"

definition two_dates_df :: dataframe where
  "two_dates_df = \<lparr>index_len = 1,
     columns = [(''date'', [DStr ''2026-02-07'']), (''date'', [DStr ''2026-02-08''])]\<rparr>"

text \<open>Transactions of February and March 2026.\<close>

definition feb_ts :: "nat \<Rightarrow> datetime option" where
  "feb_ts d = Some \<lparr>ts_date = \<lparr>year = 2026, month = 2, day = d\<rparr>, ts_second = 0\<rparr>"

definition demo_tx :: "datetime option \<Rightarrow> string \<Rightarrow> string \<Rightarrow> real \<Rightarrow> tx" where
  "demo_tx d ty cat a =
     \<lparr>tx_id = ''TX'', tx_date = d, tx_type = ty, tx_category = cat, tx_remarks = [],
      amount_eur = a, rate_eur_bdt = 120, amount_bdt = a * 120, created_at = []\<rparr>"

definition income_expense :: "tx list" where
  "income_expense = [demo_tx (feb_ts 3) ''Income'' ''Salary'' 100, demo_tx (feb_ts 7) ''Expense'' ''Food'' 40]"


definition mar_ts :: "nat \<Rightarrow> datetime option" where
  "mar_ts d = Some \<lparr>ts_date = \<lparr>year = 2026, month = 3, day = d\<rparr>, ts_second = 0\<rparr>"


definition spending :: "tx list" where
  "spending = [demo_tx (feb_ts 3) ''Expense'' ''Food'' 30, demo_tx (feb_ts 4) ''Expense'' ''Rent'' 500,
               demo_tx (feb_ts 9) ''Expense'' ''Food'' 20, demo_tx (feb_ts 10) ''Income'' ''Salary'' 900,
               demo_tx (mar_ts 1) ''Expense'' ''Rent'' 500]"

section \<open>Properties\<close>

lemma header_cache_coherent_empty:
  "header_cache w = Map.empty \<Longrightarrow> header_cache_coherent e w"
  by (simp add: header_cache_coherent_def)

lemma read_header_row_coherent:
  assumes "header_cache_coherent e w"
  shows "fst (read_header_row e t w) = row_values e (sheets w t) 1"
  using assms
  by (auto simp: read_header_row_def cache_lookup_def header_cache_coherent_def Let_def
      split: option.splits if_splits)

lemma read_header_row_sheets:
  "sheets (snd (read_header_row e t w)) = sheets w"
  by (simp add: read_header_row_def Let_def split: option.splits prod.splits)

lemma read_header_row_other_caches:
  "rate_cache (snd (read_header_row e t w)) = rate_cache w \<and>
   df_cache (snd (read_header_row e t w)) = df_cache w \<and>
   http_log (snd (read_header_row e t w)) = http_log w"
  by (simp add: read_header_row_def Let_def split: option.splits prod.splits)

text \<open>
  C8. With a header cache that agrees with the worksheets, \<^verbatim>\<open>ensure_headers\<close>
  leaves every worksheet (and the other read caches) as it was when the first row of the
  worksheet already reads as the expected headers; otherwise the worksheet becomes the
  single row of the expected headers and all three read caches are emptied.
\<close>

theorem ensure_headers_frame:
  assumes "header_cache_coherent e w"
  shows "(row_values e (sheets w t) 1 = headers \<longrightarrow>
            sheets (ensure_headers e t headers w) = sheets w \<and>
            rate_cache (ensure_headers e t headers w) = rate_cache w \<and>
            df_cache (ensure_headers e t headers w) = df_cache w) \<and>
         (row_values e (sheets w t) 1 \<noteq> headers \<longrightarrow>
            sheets (ensure_headers e t headers w) = (sheets w)(t := [map Str headers]) \<and>
            header_cache (ensure_headers e t headers w) = Map.empty \<and>
            df_cache (ensure_headers e t headers w) = Map.empty \<and>
            rate_cache (ensure_headers e t headers w) = Map.empty)"
proof -
  obtain existing w1 where r: "read_header_row e t w = (existing, w1)"
    by (cases "read_header_row e t w")
  have ex: "existing = row_values e (sheets w t) 1"
    using read_header_row_coherent [OF assms, of t] r by simp
  have sh: "sheets w1 = sheets w"
    using read_header_row_sheets [of e t w] r by simp
  have oc: "rate_cache w1 = rate_cache w" "df_cache w1 = df_cache w"
    using read_header_row_other_caches [of e t w] r by simp_all
  show ?thesis
    using ex sh oc
    by (simp add: ensure_headers_def r invalidate_all_data_caches_def append_row_def clear_def)
qed

theorem ensure_headers_frame_witness:
  "header_cache_coherent (demo_env 0 feb7 http_500 http_500) (demo_world [] [map Str RATE_HEADERS]) \<and>
   sheets (ensure_headers (demo_env 0 feb7 http_500 http_500) ''Rates'' RATE_HEADERS
             (demo_world [] [map Str RATE_HEADERS])) =
     sheets (demo_world [] [map Str RATE_HEADERS]) \<and>
   sheets (ensure_headers (demo_env 0 feb7 http_500 http_500) ''Transactions'' TX_HEADERS
             (demo_world [] [map Str RATE_HEADERS])) =
     (sheets (demo_world [] [map Str RATE_HEADERS]))(''Transactions'' := [map Str TX_HEADERS])"
proof -
  let ?e = "demo_env 0 feb7 http_500 http_500"
  let ?w = "demo_world [] [map Str RATE_HEADERS]"
  have c: "header_cache_coherent ?e ?w"
    by (simp add: header_cache_coherent_def demo_world_def)
  have r: "row_values ?e (sheets ?w ''Rates'') 1 = RATE_HEADERS"
    by (simp add: row_values_def demo_world_def RATE_HEADERS_def cell_text_def rstrip_empty_def)
  have t: "row_values ?e (sheets ?w ''Transactions'') 1 \<noteq> TX_HEADERS"
    by (simp add: row_values_def demo_world_def TX_HEADERS_def)
  show ?thesis
    using c r t ensure_headers_frame [OF c, of "''Rates''" RATE_HEADERS]
      ensure_headers_frame [OF c, of "''Transactions''" TX_HEADERS]
    by simp
qed

subsection \<open>Invariants of the caches\<close>

lemma rate_cache_ok_empty: "rate_cache w = Map.empty \<Longrightarrow> rate_cache_ok w"
  by (simp add: rate_cache_ok_def)

lemma ensure_headers_coherent:
  assumes "header_cache_coherent e w"
  shows "header_cache_coherent e (ensure_headers e t headers w)"
proof -
  obtain existing w1 where r: "read_header_row e t w = (existing, w1)"
    by (cases "read_header_row e t w")
  have "header_cache_coherent e w1"
    using assms r
    by (auto simp: read_header_row_def cache_lookup_def header_cache_coherent_def Let_def
        split: option.splits if_splits)
  then show ?thesis
    using r
    by (simp add: ensure_headers_def header_cache_coherent_def invalidate_all_data_caches_def)
qed

subsection \<open>Rate providers\<close>





text \<open>A provider rate that is not positive is an error of that provider, so the chain
  goes on to the next one.\<close>

lemma rate_of_response_not_positive:
  assumes "status_code resp = 200" and "resp_json resp = Inr (PyDict kvs)"
    and "dict_get kvs ''rates'' = Some (PyDict rs)" and "dict_get rs ''BDT'' = Some v"
    and "safe_float e v 0 \<le> 0"
  shows "rate_of_response e name resp =
           Inl (RuntimeError (name @ '' invalid rate: '' @ str_of_pyval e (PyDict kvs)))"
  using assms by (simp add: rate_of_response_def data_get_def Let_def)

lemma isoformat_feb7: "isoformat feb7 = ''2026-02-07''"
  by (simp add: isoformat_def feb7_def zfill_def str_nat.simps digit_char_def)

lemma str_nat_500: "str_nat 500 = ''500''"
  by (simp add: str_nat.simps digit_char_def)

text \<open>
  C2. When the requested date is not the current date and the primary provider fails,
  the secondary provider fails at once, without a request, with the reason that it only
  supports today's rate, and the fetch raises one error whose text lists both reasons.
\<close>

theorem fetch_not_today_combined_error:
  assumes "d \<noteq> today e"
    and "fst (fetch_eur_to_bdt_rate_frankfurter e d w) = Inl ex1"
  shows "fetch_eur_to_bdt_rate_erapi e d (snd (fetch_eur_to_bdt_rate_frankfurter e d w)) =
           (Inl (RuntimeError erapi_only_today), snd (fetch_eur_to_bdt_rate_frankfurter e d w)) \<and>
         fetch_eur_to_bdt_rate e d w =
           (Inl (RuntimeError (''All FX providers failed.'' @ newline @
                   ''Frankfurter failed: '' @ str_exn ex1 @ newline @
                   ''ER-API failed: '' @ erapi_only_today)),
            snd (fetch_eur_to_bdt_rate_frankfurter e d w)) \<and>
         http_log (snd (fetch_eur_to_bdt_rate e d w)) = http_log w @ [frankfurter_url d]"
proof -
  obtain w1 where f: "fetch_eur_to_bdt_rate_frankfurter e d w = (Inl ex1, w1)"
    using assms(2) by (cases "fetch_eur_to_bdt_rate_frankfurter e d w") simp
  have l: "http_log w1 = http_log w @ [frankfurter_url d]"
    using f by (auto simp: fetch_eur_to_bdt_rate_frankfurter_def Let_def split: sum.splits)
  have s: "fetch_eur_to_bdt_rate_erapi e d w1 = (Inl (RuntimeError erapi_only_today), w1)"
    using assms(1) by (simp add: fetch_eur_to_bdt_rate_erapi_def)
  show ?thesis
    using f l s by (simp add: fetch_eur_to_bdt_rate_def)
qed

theorem fetch_not_today_combined_error_witness:
  "feb7 \<noteq> today (demo_env 0 feb9 http_500 (rates_response 119.5)) \<and>
   fst (fetch_eur_to_bdt_rate (demo_env 0 feb9 http_500 (rates_response 119.5)) feb7
          (demo_world [] [])) =
     Inl (RuntimeError (''All FX providers failed.'' @ newline @
            ''Frankfurter failed: Frankfurter HTTP 500: Internal Server Error'' @ newline @
            ''ER-API failed: '' @ erapi_only_today)) \<and>
   http_log (snd (fetch_eur_to_bdt_rate (demo_env 0 feb9 http_500 (rates_response 119.5)) feb7
          (demo_world [] []))) = [''https://api.frankfurter.app/2026-02-07'']"
proof -
  let ?e = "demo_env 0 feb9 http_500 (rates_response 119.5)"
  let ?w = "demo_world [] []"
  have a: "feb7 \<noteq> today ?e"
    by (simp add: demo_env_def feb7_def feb9_def)
  have b: "fst (fetch_eur_to_bdt_rate_frankfurter ?e feb7 ?w) =
             Inl (RuntimeError ''Frankfurter HTTP 500: Internal Server Error'')"
    by (simp add: fetch_eur_to_bdt_rate_frankfurter_def demo_env_def http_500_def
        rate_of_response_def str_nat_500 frankfurter_url_def erapi_url_def isoformat_feb7 Let_def)
  note th = fetch_not_today_combined_error [OF a b]
  have c: "fst (fetch_eur_to_bdt_rate ?e feb7 ?w) =
             Inl (RuntimeError (''All FX providers failed.'' @ newline @
                    ''Frankfurter failed: Frankfurter HTTP 500: Internal Server Error'' @ newline @
                    ''ER-API failed: '' @ erapi_only_today))"
    using th [THEN conjunct2, THEN conjunct1] by simp
  have d: "http_log (snd (fetch_eur_to_bdt_rate ?e feb7 ?w)) =
             [''https://api.frankfurter.app/2026-02-07'']"
    using th [THEN conjunct2, THEN conjunct2]
    by (simp add: frankfurter_url_def isoformat_feb7 demo_world_def)
  show ?thesis
    using a c d by simp
qed

subsection \<open>The date-locked rate\<close>

lemma sheet_pos: "get_rate_from_sheet e rows k = Some r \<Longrightarrow> 0 < r"
  by (auto simp: get_rate_from_sheet_def Let_def split: option.splits if_splits)



lemmas rate_eval_simps =
  get_rate_for_date_def get_rate_from_sheet_cached_def cache_lookup_def
  demo_env_def get_rate_from_sheet_def find_cell_def column_text_def cell_text_def
  cell_value_def safe_float_def demo_float_of_str_def demo_str_of_float_def fetch_eur_to_bdt_rate_def
  fetch_eur_to_bdt_rate_frankfurter_def fetch_eur_to_bdt_rate_erapi_def rate_of_response_def
  http_500_def rates_response_def data_get_def dict_get_def frankfurter_url_def erapi_url_def Let_def
  invalidate_all_data_caches_def append_row_def

lemma first_call_eval:
  "fst first_call = Inr 119.5 \<and>
   sheets (snd first_call) ''Rates'' = blank_rate_sheet @ [[Str ''2026-02-07'', Num 119.5]] \<and>
   rate_cache (snd first_call) = Map.empty"
  by (simp add: first_call_def blank_rate_sheet_def isoformat_feb7 demo_world_def rate_eval_simps)


text \<open>
  C1 (a second resolution of a date returns the rate of the first, and the Rates
  worksheet holds at most one rate per date) fails on a Rates worksheet that already has
  a row for the date with an unusable rate: the lookup reads the first row of the date,
  so the row appended by a resolution is never found, and each resolution fetches again
  and appends again. Here the first resolution of 2026-02-07 returns 119.5, the second
  120.25, and the worksheet ends with two rates for the date.
\<close>

theorem get_rate_for_date_refetches:
  "fst first_call = Inr 119.5 \<and> fst second_call = Inr 120.25 \<and>
   sheets (snd second_call) ''Rates'' =
     blank_rate_sheet @ [[Str ''2026-02-07'', Num 119.5], [Str ''2026-02-07'', Num 120.25]]"
  using first_call_eval
  by (simp add: second_call_def blank_rate_sheet_def isoformat_feb7 rate_eval_simps)

subsection \<open>The entry page\<close>

lemma fetch_sheets: "sheets (snd (fetch_eur_to_bdt_rate e d w)) = sheets w"
  by (auto simp: fetch_eur_to_bdt_rate_def fetch_eur_to_bdt_rate_frankfurter_def
      fetch_eur_to_bdt_rate_erapi_def Let_def split: sum.splits prod.splits if_splits)

lemma get_rate_for_date_other_sheets:
  "t \<noteq> ''Rates'' \<Longrightarrow> sheets (snd (get_rate_for_date e d w)) t = sheets w t"
  using fetch_sheets [of e d "snd (get_rate_from_sheet_cached e (isoformat d) w)"]
  by (auto simp: get_rate_for_date_def get_rate_from_sheet_cached_def Let_def
      invalidate_all_data_caches_def append_row_def
      split: prod.splits option.splits sum.splits)

text \<open>
  C4. When the entry page saves a transaction, the rate is the one resolved for the
  date, the amount is positive, and the row written to the Transactions worksheet holds
  the amount, the rate and their product, as computed.
\<close>

theorem save_entry_amount_bdt:
  assumes "fst (save_entry e f w) = Some row"
  shows "\<exists>r. fst (get_rate_for_date e (form_date f) w) = Inr r \<and>
             0 < form_amount_eur f \<and>
             row ! 5 = Num (form_amount_eur f) \<and> row ! 6 = Num r \<and>
             row ! 7 = Num (form_amount_eur f * r) \<and>
             sheets (snd (save_entry e f w)) ''Transactions'' = sheets w ''Transactions'' @ [row]"
proof -
  obtain res w1 where g: "get_rate_for_date e (form_date f) w = (res, w1)"
    by (cases "get_rate_for_date e (form_date f) w")
  have s: "sheets w1 ''Transactions'' = sheets w ''Transactions''"
    using get_rate_for_date_other_sheets [of "''Transactions''" e "form_date f" w] g by simp
  show ?thesis
    using assms g s
    by (cases res)
      (auto simp: save_entry_def rate_lookup_and_conversion_def Let_def
        invalidate_all_data_caches_def append_row_def split: if_splits)
qed

lemma demo_rate: "fst (get_rate_for_date (demo_env 0 feb7 http_500 http_500) feb7
     (demo_world [] locked_rate_sheet)) = Inr 120"
  by (simp add: locked_rate_sheet_def isoformat_feb7 demo_world_def rate_eval_simps)

lemma demo_save: "fst (save_entry (demo_env 0 feb7 http_500 http_500) demo_form
     (demo_world [] locked_rate_sheet)) = Some demo_row"
  using demo_rate
  by (cases "get_rate_for_date (demo_env 0 feb7 http_500 http_500) feb7 (demo_world [] locked_rate_sheet)")
     (simp add: save_entry_def rate_lookup_and_conversion_def demo_form_def demo_row_def Let_def
       isoformat_feb7 demo_env_def)

theorem save_entry_amount_bdt_witness:
  "fst (save_entry (demo_env 0 feb7 http_500 http_500) demo_form
         (demo_world [] locked_rate_sheet)) = Some demo_row \<and>
   demo_row ! 5 = Num 100 \<and> demo_row ! 6 = Num 120 \<and> demo_row ! 7 = Num 12000 \<and>
   sheets (snd (save_entry (demo_env 0 feb7 http_500 http_500) demo_form
         (demo_world [] locked_rate_sheet))) ''Transactions'' = [demo_row]"
proof -
  obtain r where r:
    "fst (get_rate_for_date (demo_env 0 feb7 http_500 http_500) (form_date demo_form)
           (demo_world [] locked_rate_sheet)) = Inr r"
    "demo_row ! 7 = Num (form_amount_eur demo_form * r)"
    "sheets (snd (save_entry (demo_env 0 feb7 http_500 http_500) demo_form
         (demo_world [] locked_rate_sheet))) ''Transactions'' =
       sheets (demo_world [] locked_rate_sheet) ''Transactions'' @ [demo_row]"
    using save_entry_amount_bdt [OF demo_save] by blast
  have "r = 120"
    using r(1) demo_rate by (simp add: demo_form_def)
  then show ?thesis
    using r demo_save by (simp add: demo_form_def demo_world_def demo_row_def)
qed


subsection \<open>The operations keep the invariants of the caches\<close>

lemma fetch_frame:
  "sheets (snd (fetch_eur_to_bdt_rate e d w)) = sheets w \<and>
   header_cache (snd (fetch_eur_to_bdt_rate e d w)) = header_cache w \<and>
   rate_cache (snd (fetch_eur_to_bdt_rate e d w)) = rate_cache w \<and>
   df_cache (snd (fetch_eur_to_bdt_rate e d w)) = df_cache w"
  by (auto simp: fetch_eur_to_bdt_rate_def fetch_eur_to_bdt_rate_frankfurter_def
      fetch_eur_to_bdt_rate_erapi_def Let_def split: sum.splits prod.splits if_splits)

lemma get_rate_from_sheet_cached_frame:
  "sheets (snd (get_rate_from_sheet_cached e k w)) = sheets w \<and>
   header_cache (snd (get_rate_from_sheet_cached e k w)) = header_cache w"
  by (simp add: get_rate_from_sheet_cached_def Let_def split: option.splits)

lemma get_rate_from_sheet_cached_ok:
  "rate_cache_ok w \<Longrightarrow> rate_cache_ok (snd (get_rate_from_sheet_cached e k w))"
  by (auto simp: get_rate_from_sheet_cached_def rate_cache_ok_def Let_def
      split: option.splits if_splits dest: sheet_pos)

lemma get_rate_for_date_cases:
  "snd (get_rate_for_date e d w) =
     snd (fetch_eur_to_bdt_rate e d (snd (get_rate_from_sheet_cached e (isoformat d) w))) \<or>
   snd (get_rate_for_date e d w) = snd (get_rate_from_sheet_cached e (isoformat d) w) \<or>
   header_cache (snd (get_rate_for_date e d w)) = Map.empty \<and>
   rate_cache (snd (get_rate_for_date e d w)) = Map.empty"
  by (auto simp: get_rate_for_date_def Let_def invalidate_all_data_caches_def
      split: prod.splits option.splits sum.splits)

lemma get_rate_for_date_coherent:
  assumes "header_cache_coherent e w"
  shows "header_cache_coherent e (snd (get_rate_for_date e d w))"
proof -
  have c: "header_cache_coherent e (snd (get_rate_from_sheet_cached e (isoformat d) w))"
    using assms get_rate_from_sheet_cached_frame [of e "isoformat d" w]
    by (simp add: header_cache_coherent_def)
  then have f: "header_cache_coherent e
      (snd (fetch_eur_to_bdt_rate e d (snd (get_rate_from_sheet_cached e (isoformat d) w))))"
    using fetch_frame [of e d "snd (get_rate_from_sheet_cached e (isoformat d) w)"]
    by (simp add: header_cache_coherent_def)
  show ?thesis
    using get_rate_for_date_cases [of e d w] c f header_cache_coherent_empty by metis
qed

lemma get_rate_for_date_cache_ok:
  assumes "rate_cache_ok w"
  shows "rate_cache_ok (snd (get_rate_for_date e d w))"
proof -
  have c: "rate_cache_ok (snd (get_rate_from_sheet_cached e (isoformat d) w))"
    using assms by (rule get_rate_from_sheet_cached_ok)
  then have f: "rate_cache_ok
      (snd (fetch_eur_to_bdt_rate e d (snd (get_rate_from_sheet_cached e (isoformat d) w))))"
    using fetch_frame [of e d "snd (get_rate_from_sheet_cached e (isoformat d) w)"]
    by (simp add: rate_cache_ok_def)
  show ?thesis
    using get_rate_for_date_cases [of e d w] c f rate_cache_ok_empty by metis
qed

lemma ensure_headers_cache_ok:
  assumes "rate_cache_ok w"
  shows "rate_cache_ok (ensure_headers e t headers w)"
  using assms read_header_row_other_caches [of e t w]
  by (cases "read_header_row e t w")
    (auto simp: ensure_headers_def rate_cache_ok_def invalidate_all_data_caches_def)

lemma read_df_cached_invariants:
  assumes "header_cache_coherent e w" and "rate_cache_ok w"
  shows "header_cache_coherent e (snd (read_df_cached e t w)) \<and>
         rate_cache_ok (snd (read_df_cached e t w)) \<and>
         sheets (snd (read_df_cached e t w)) = sheets w"
  using assms
  by (simp add: read_df_cached_def header_cache_coherent_def rate_cache_ok_def Let_def
      split: option.splits)

lemma save_entry_invariants:
  assumes "header_cache_coherent e w" and "rate_cache_ok w"
  shows "header_cache_coherent e (snd (save_entry e f w)) \<and> rate_cache_ok (snd (save_entry e f w))"
proof -
  let ?g = "get_rate_for_date e (form_date f) w"
  have g: "header_cache_coherent e (snd ?g)" "rate_cache_ok (snd ?g)"
    using assms get_rate_for_date_coherent get_rate_for_date_cache_ok by simp_all
  have "snd (save_entry e f w) = snd ?g \<or>
        header_cache (snd (save_entry e f w)) = Map.empty \<and>
        rate_cache (snd (save_entry e f w)) = Map.empty"
    by (cases ?g)
      (auto simp: save_entry_def rate_lookup_and_conversion_def Let_def
        invalidate_all_data_caches_def split: sum.splits option.splits)
  then show ?thesis
    using g header_cache_coherent_empty rate_cache_ok_empty by metis
qed


subsection \<open>A stored rate is locked\<close>

lemma cell_text_now [simp]: "cell_text (e\<lparr>now := t\<rparr>) c = cell_text e c"
  by (simp add: cell_text_def split: cell.splits)

lemma column_text_now [simp]: "column_text (e\<lparr>now := t\<rparr>) row c = column_text e row c"
  by (simp add: column_text_def)

lemma find_from_now [simp]: "find_from (e\<lparr>now := t\<rparr>) c q i rows = find_from e c q i rows"
  by (induction rows arbitrary: i) simp_all

lemma safe_float_now [simp]: "safe_float (e\<lparr>now := t\<rparr>) x v = safe_float e x v"
  by (cases x) (simp_all add: safe_float_def)

lemma get_rate_from_sheet_now [simp]:
  "get_rate_from_sheet (e\<lparr>now := t\<rparr>) rows k = get_rate_from_sheet e rows k"
  by (simp add: get_rate_from_sheet_def find_cell_def cell_value_def Let_def split: option.splits)

lemma rate_cache_coherent_now [simp]:
  "rate_cache_coherent (e\<lparr>now := t\<rparr>) w = rate_cache_coherent e w"
  by (simp add: rate_cache_coherent_def)

lemma get_rate_from_sheet_cached_coherent:
  assumes "rate_cache_coherent e w"
  shows "fst (get_rate_from_sheet_cached e k w) = get_rate_from_sheet e (sheets w ''Rates'') k \<and>
         rate_cache_coherent e (snd (get_rate_from_sheet_cached e k w))"
  using assms
  by (auto simp: get_rate_from_sheet_cached_def cache_lookup_def rate_cache_coherent_def Let_def
      split: option.splits if_splits)

text \<open>A date whose first row in the Rates worksheet holds a usable rate is locked: the
  resolution returns that rate, writes nothing, and so does every later resolution.\<close>

lemma get_rate_for_date_stored:
  assumes "rate_cache_coherent e w"
    and "get_rate_from_sheet e (sheets w ''Rates'') (isoformat d) = Some r"
  shows "fst (get_rate_for_date e d w) = Inr r \<and>
         sheets (snd (get_rate_for_date e d w)) = sheets w \<and>
         http_log (snd (get_rate_for_date e d w)) = http_log w \<and>
         rate_cache_coherent e (snd (get_rate_for_date e d w))"
proof -
  obtain v w1 where c: "get_rate_from_sheet_cached e (isoformat d) w = (v, w1)"
    by (cases "get_rate_from_sheet_cached e (isoformat d) w")
  have v: "v = Some r" and w1: "rate_cache_coherent e w1"
    using get_rate_from_sheet_cached_coherent [OF assms(1), of "isoformat d"] c assms(2)
    by simp_all
  have s: "sheets w1 = sheets w" "http_log w1 = http_log w"
    using c by (auto simp: get_rate_from_sheet_cached_def Let_def split: option.splits)
  show ?thesis
    using c v w1 s by (simp add: get_rate_for_date_def)
qed

lemma get_rate_for_date_stored_twice:
  assumes "rate_cache_coherent e w"
    and "get_rate_from_sheet e (sheets w ''Rates'') (isoformat d) = Some r"
  shows "fst (get_rate_for_date (e\<lparr>now := t\<rparr>) d (snd (get_rate_for_date e d w))) = Inr r"
proof -
  let ?w = "snd (get_rate_for_date e d w)"
  have a: "rate_cache_coherent (e\<lparr>now := t\<rparr>) ?w"
    using get_rate_for_date_stored [OF assms] by simp
  have b: "get_rate_from_sheet (e\<lparr>now := t\<rparr>) (sheets ?w ''Rates'') (isoformat d) = Some r"
    using get_rate_for_date_stored [OF assms] assms(2) by simp
  show ?thesis
    using get_rate_for_date_stored [OF a b] by simp
qed


subsection \<open>Normalization\<close>


lemma names_convert [simp]: "column_names (convert_column c f df) = column_names df"
  by (auto simp: convert_column_def column_names_def split: prod.splits)

lemma index_ensure [simp]: "index_len (ensure_column c df) = index_len df"
  by (simp add: ensure_column_def)

lemma index_convert [simp]: "index_len (convert_column c f df) = index_len df"
  by (simp add: convert_column_def)



lemma index_fold_ensure [simp]: "index_len (fold ensure_column cs df) = index_len df"
  by (induction cs arbitrary: df) simp_all









lemma names_fold_convert [simp]:
  "column_names (fold (\<lambda>col. convert_column col (g col)) cs df) = column_names df"
  by (induction cs arbitrary: df) simp_all

lemma index_fold_convert [simp]:
  "index_len (fold (\<lambda>col. convert_column col (g col)) cs df) = index_len df"
  by (induction cs arbitrary: df) simp_all
















text \<open>It also fails on a table with two date columns, where the conversion of the
  date raises.\<close>

lemma normalize_duplicate_date_raises:
  "normalize_transactions_df demo_pandas two_dates_df =
     Inl (LibraryError ''cannot assemble with duplicate keys'')"
  by (simp add: normalize_transactions_df_def df_empty_def two_dates_df_def is_series_def
      required_cols_def ensure_column_def column_names_def)

text \<open>
  C10. An empty table (no rows, or no columns) is returned unchanged: no column is
  added and nothing is converted.
\<close>

theorem normalize_transactions_df_empty:
  assumes "df_empty df"
  shows "normalize_transactions_df p df = Inr df"
  using assms by (simp add: normalize_transactions_df_def)

theorem normalize_transactions_df_empty_witness:
  "df_empty no_rows_df \<and>
   normalize_transactions_df demo_pandas no_rows_df = Inr no_rows_df \<and>
   column_names no_rows_df = [''id'', ''note'']"
proof -
  have a: "df_empty no_rows_df"
    by (simp add: df_empty_def no_rows_df_def)
  show ?thesis
    using a normalize_transactions_df_empty [OF a, of demo_pandas]
    by (simp add: no_rows_df_def column_names_def)
qed

subsection \<open>Monthly summary\<close>

lemma sum_insort:
  "sum_list (map f (filter P (insort_key k x xs))) =
     (if P x then f x else 0) + sum_list (map (f :: 'a \<Rightarrow> real) (filter P xs))"
  by (induction xs) (auto simp: algebra_simps)

lemma sum_sort_key:
  "sum_list (map f (filter P (sort_key k xs))) = sum_list (map (f :: 'a \<Rightarrow> real) (filter P xs))"
  by (induction xs) (auto simp: sum_insort)

lemma sum_filter_rev:
  "sum_list (map f (filter P (rev xs))) = sum_list (map (f :: 'a \<Rightarrow> real) (filter P xs))"
  by (simp add: rev_filter [symmetric] rev_map [symmetric])

lemma sum_filter_partition:
  "sum_list (map f (filter P (filter Q xs))) + sum_list (map f (filter P (filter (\<lambda>x. \<not> Q x) xs))) =
     sum_list (map (f :: 'a \<Rightarrow> real) (filter P xs))"
  by (induction xs) auto

lemma sum_sort_values:
  "sum_list (map f (filter P (sort_values_date_desc m))) =
     sum_list (map (f :: tx \<Rightarrow> real) (filter P m))"
  using sum_filter_partition [of f P "\<lambda>t. tx_date t \<noteq> None" m]
  by (simp add: sort_values_date_desc_def sum_filter_rev sum_sort_key)

lemma loc_sum_month_frame:
  "loc_sum (month_frame txs sel) ty col = total_of txs sel ty col"
  by (simp add: loc_sum_def month_frame_def sum_sort_values total_of_def conj_commute)

text \<open>
  C6. The summary of the selected month: income, expense, debt added and debt paid are
  the sums of the amounts of the month's transactions of type Income, Expense, Debt and
  Debt Payment, in each currency; net is income minus expense and debt-net is debt added
  minus debt paid.
\<close>

theorem monthly_report_totals:
  "income_eur (monthly_report txs sel) = total_of txs sel ''Income'' amount_eur \<and>
   expense_eur (monthly_report txs sel) = total_of txs sel ''Expense'' amount_eur \<and>
   debt_add_eur (monthly_report txs sel) = total_of txs sel ''Debt'' amount_eur \<and>
   debt_pay_eur (monthly_report txs sel) = total_of txs sel ''Debt Payment'' amount_eur \<and>
   income_bdt (monthly_report txs sel) = total_of txs sel ''Income'' amount_bdt \<and>
   expense_bdt (monthly_report txs sel) = total_of txs sel ''Expense'' amount_bdt \<and>
   debt_add_bdt (monthly_report txs sel) = total_of txs sel ''Debt'' amount_bdt \<and>
   debt_pay_bdt (monthly_report txs sel) = total_of txs sel ''Debt Payment'' amount_bdt \<and>
   net_eur (monthly_report txs sel) =
     total_of txs sel ''Income'' amount_eur - total_of txs sel ''Expense'' amount_eur \<and>
   net_bdt (monthly_report txs sel) =
     total_of txs sel ''Income'' amount_bdt - total_of txs sel ''Expense'' amount_bdt \<and>
   debt_net_eur (monthly_report txs sel) =
     total_of txs sel ''Debt'' amount_eur - total_of txs sel ''Debt Payment'' amount_eur \<and>
   debt_net_bdt (monthly_report txs sel) =
     total_of txs sel ''Debt'' amount_bdt - total_of txs sel ''Debt Payment'' amount_bdt"
  by (simp add: monthly_report_def summary_def Let_def loc_sum_month_frame)


lemma month_feb: "to_month_str (feb_ts d) = ''2026-02''"
  by (simp add: to_month_str_def feb_ts_def zfill_def str_nat.simps digit_char_def)

theorem monthly_report_totals_witness:
  "net_eur (monthly_report income_expense ''2026-02'') = 60 \<and>
   income_eur (monthly_report income_expense ''2026-02'') = 100 \<and>
   expense_eur (monthly_report income_expense ''2026-02'') = 40 \<and>
   debt_net_eur (monthly_report income_expense ''2026-02'') = 0"
  using monthly_report_totals [of income_expense "''2026-02''"]
  by (simp add: total_of_def income_expense_def demo_tx_def tx_month_def month_feb)

subsection \<open>Absent groups\<close>

lemma month_mar: "to_month_str (mar_ts d) = ''2026-03''"
  by (simp add: to_month_str_def mar_ts_def zfill_def str_nat.simps digit_char_def)













subsection \<open>Expense by category\<close>

lemma groupby_keys: "map fst (groupby_sum key v xs) = sort (remdups (map key xs))"
  by (simp add: groupby_sum_def comp_def)

lemma set_sort_values_desc: "set (sort_values_desc s) = set s"
  by (simp add: sort_values_desc_def)

lemma distinct_keys_sort_values_desc:
  "distinct (map fst s) \<Longrightarrow> distinct (map fst (sort_values_desc s))"
  by (simp add: sort_values_desc_def distinct_map)

lemma sorted_sort_values_desc: "sorted_wrt (\<lambda>a b. a \<ge> b) (map snd (sort_values_desc s))"
proof -
  have "sorted (map snd (sort_key snd s))" by (rule sorted_sort_key)
  then have "sorted_wrt (\<lambda>a b. a \<ge> b) (rev (map snd (sort_key snd s)))"
    by (simp add: sorted_wrt_rev)
  then show ?thesis
    by (simp add: sort_values_desc_def rev_map)
qed

text \<open>
  C9. The category breakdown of a month has one entry for each category of the month's
  expenses, its value is the sum of the amounts of these expenses in the category, and
  the entries are in descending order of value.
\<close>

theorem expense_by_category_breakdown:
  "set (map fst (expense_by_category v txs sel)) =
     tx_category ` {t \<in> set txs. tx_month t = sel \<and> tx_type t = ''Expense''} \<and>
   distinct (map fst (expense_by_category v txs sel)) \<and>
   (\<forall>(cat, total) \<in> set (expense_by_category v txs sel). total = category_total txs sel cat v) \<and>
   sorted_wrt (\<lambda>a b. a \<ge> b) (map snd (expense_by_category v txs sel))"
proof -
  let ?m = "filter (\<lambda>t. tx_month t = sel \<and> tx_type t = ''Expense'') txs"
  let ?g = "groupby_sum tx_category v ?m"
  have e: "expense_by_category v txs sel = sort_values_desc ?g"
    by (simp add: expense_by_category_def)
  have "set (map fst (sort_values_desc ?g)) = set (map fst ?g)"
    by (simp add: set_sort_values_desc)
  also have "\<dots> = set (map tx_category ?m)"
    by (simp only: groupby_keys set_sort set_remdups)
  also have "\<dots> = tx_category ` {t \<in> set txs. tx_month t = sel \<and> tx_type t = ''Expense''}"
    by auto
  finally have 1: "set (map fst (sort_values_desc ?g)) =
      tx_category ` {t \<in> set txs. tx_month t = sel \<and> tx_type t = ''Expense''}" .
  have 2: "distinct (map fst (sort_values_desc ?g))"
    by (rule distinct_keys_sort_values_desc) (simp add: groupby_keys)
  have 3: "\<forall>(cat, total) \<in> set (sort_values_desc ?g). total = category_total txs sel cat v"
    by (auto simp: set_sort_values_desc groupby_sum_def category_total_def conj_commute conj_left_commute)
  show ?thesis
    unfolding e using 1 2 3 sorted_sort_values_desc by blast
qed


lemma spending_eval:
  "expense_by_category amount_eur spending ''2026-02'' = [(''Rent'', 500), (''Food'', 50)]"
  by (simp add: expense_by_category_def spending_def demo_tx_def tx_month_def month_feb month_mar
      groupby_sum_def sort_values_desc_def)

theorem expense_by_category_breakdown_witness:
  "expense_by_category amount_eur spending ''2026-02'' = [(''Rent'', 500), (''Food'', 50)] \<and>
   category_total spending ''2026-02'' ''Rent'' amount_eur = 500 \<and>
   category_total spending ''2026-02'' ''Food'' amount_eur = 50 \<and>
   sorted_wrt (\<lambda>a b. a \<ge> b) [500, 50 :: real]"
proof -
  note th = expense_by_category_breakdown [of amount_eur spending "''2026-02''"]
  have t: "\<forall>(cat, total) \<in> set [(''Rent'', 500), (''Food'', 50)].
             total = category_total spending ''2026-02'' cat amount_eur"
    using th unfolding spending_eval by blast
  have s: "sorted_wrt (\<lambda>a b. a \<ge> b) (map snd [(''Rent'', 500 :: real), (''Food'', 50)])"
    using th unfolding spending_eval by blast
  show ?thesis
    using t s spending_eval by simp
qed

end
